theory Spec2Isabelle
  imports Complex_Main
begin

section \<open>Data model (types.ts)\<close>

text \<open>
  The engine is the class \<open>PomodoroTimer\<close> of timer.ts; its data types come from
  types.ts. JavaScript numbers are modelled as follows: the settings are integers (the
  settings form reads them with \<open>parseInt\<close>), timestamps are the integer
  milliseconds of \<open>Date.now()\<close>, so every time value the engine computes is an
  integer and is modelled by \<open>int\<close>; the two public helpers that take or
  return an arbitrary number (\<open>formatTime\<close>, \<open>getProgress\<close>) use \<open>real\<close>.
  Rounding of doubles, \<open>NaN\<close> and infinities are outside the model, with two
  exceptions: the \<open>NaN\<close> of a remainder by zero, which the transition function can
  meet, is the value \<open>None\<close> of \<open>js_rem\<close>, and the \<open>NaN\<close> or infinity of
  a division by zero, which \<open>getProgress\<close> guards against, is the value \<open>None\<close>
  of \<open>js_div\<close>.
\<close>

datatype SessionType = Work | Break | LongBreak

datatype ThemeMode = Light | Dark | System

datatype TimerStatus = Idle | Running | Paused | Completed

record PomodoroSettings =
  workDuration :: int
  breakDuration :: int
  longBreakDuration :: int
  totalSets :: int
  longBreakInterval :: int
  soundEnabled :: bool
  notificationEnabled :: bool
  themeMode :: ThemeMode

record TimerState =
  status :: TimerStatus
  currentSession :: SessionType
  currentSet :: int
  remainingTime :: int
  totalDuration :: int

definition DEFAULT_SETTINGS :: PomodoroSettings where
  "DEFAULT_SETTINGS =
     \<lparr> workDuration = 25, breakDuration = 5, longBreakDuration = 15, totalSets = 4,
       longBreakInterval = 4, soundEnabled = True, notificationEnabled = True,
       themeMode = System \<rparr>"

text \<open>
  \<open>Partial<PomodoroSettings>\<close>: every field may be absent. The spread
  \<open>{ ...base, ...partial }\<close> keeps the base's value where the field is absent.
\<close>

record PartialSettings =
  p_workDuration :: "int option"
  p_breakDuration :: "int option"
  p_longBreakDuration :: "int option"
  p_totalSets :: "int option"
  p_longBreakInterval :: "int option"
  p_soundEnabled :: "bool option"
  p_notificationEnabled :: "bool option"
  p_themeMode :: "ThemeMode option"

definition spread :: "PomodoroSettings \<Rightarrow> PartialSettings \<Rightarrow> PomodoroSettings" where
  "spread base p =
     \<lparr> workDuration = (case p_workDuration p of None \<Rightarrow> workDuration base | Some v \<Rightarrow> v),
       breakDuration = (case p_breakDuration p of None \<Rightarrow> breakDuration base | Some v \<Rightarrow> v),
       longBreakDuration =
         (case p_longBreakDuration p of None \<Rightarrow> longBreakDuration base | Some v \<Rightarrow> v),
       totalSets = (case p_totalSets p of None \<Rightarrow> totalSets base | Some v \<Rightarrow> v),
       longBreakInterval =
         (case p_longBreakInterval p of None \<Rightarrow> longBreakInterval base | Some v \<Rightarrow> v),
       soundEnabled = (case p_soundEnabled p of None \<Rightarrow> soundEnabled base | Some v \<Rightarrow> v),
       notificationEnabled =
         (case p_notificationEnabled p of None \<Rightarrow> notificationEnabled base | Some v \<Rightarrow> v),
       themeMode = (case p_themeMode p of None \<Rightarrow> themeMode base | Some v \<Rightarrow> v) \<rparr>"

definition all_fields :: "PomodoroSettings \<Rightarrow> PartialSettings" where
  "all_fields s =
     \<lparr> p_workDuration = Some (workDuration s), p_breakDuration = Some (breakDuration s),
       p_longBreakDuration = Some (longBreakDuration s), p_totalSets = Some (totalSets s),
       p_longBreakInterval = Some (longBreakInterval s),
       p_soundEnabled = Some (soundEnabled s),
       p_notificationEnabled = Some (notificationEnabled s),
       p_themeMode = Some (themeMode s) \<rparr>"

text \<open>
  \<open>Partial<TimerCallbacks>\<close>: a slot holds a handler or not. The handlers are the
  caller's code; the model records every call the engine makes as an event, in order, and
  takes the handlers to be observers (they do not call back into the engine).
\<close>

record TimerCallbacks =
  onTick :: bool
  onSessionEnd :: bool
  onComplete :: bool
  onStateChange :: bool

datatype Event =
    OnTick TimerState
  | OnSessionEnd SessionType "SessionType option"
  | OnComplete
  | OnStateChange TimerState

section \<open>The engine (timer.ts)\<close>

text \<open>
  The fields of the class, and with them the part of the host the class talks to:
  \<open>hostIntervals\<close> is the set of interval handles that \<open>window\<close> holds active
  and \<open>hostNextId\<close> the next handle \<open>setInterval\<close> returns. The wall clock is
  an input: every operation that reaches a \<open>Date.now()\<close> takes the value read there
  as an argument. An operation returns the engine it leaves behind and the callbacks it
  made. Of the class, \<open>updateCallbacks\<close>, \<open>getSettings\<close> and the four status
  predicates are left out: they change nothing of what is proved here.
\<close>

record PomodoroTimer =
  settings :: PomodoroSettings
  state :: TimerState
  callbacks :: TimerCallbacks
  intervalId :: "nat option"
  startTime :: int
  endTime :: int
  pausedRemainingTime :: int
  hostIntervals :: "nat set"
  hostNextId :: nat

definition createInitialState :: "PomodoroSettings \<Rightarrow> TimerState" where
  "createInitialState s =
     (let duration = workDuration s * 60 * 1000
      in \<lparr> status = Idle, currentSession = Work, currentSet = 1,
           remainingTime = duration, totalDuration = duration \<rparr>)"

text \<open>The constructor, on a host with no interval active.\<close>

definition construct :: "PartialSettings \<Rightarrow> TimerCallbacks \<Rightarrow> PomodoroTimer" where
  "construct p cb =
     (let s = spread DEFAULT_SETTINGS p
      in \<lparr> settings = s, state = createInitialState s, callbacks = cb, intervalId = None,
           startTime = 0, endTime = 0, pausedRemainingTime = 0,
           hostIntervals = {}, hostNextId = 1 \<rparr>)"

definition updateSettings :: "PartialSettings \<Rightarrow> PomodoroTimer \<Rightarrow> PomodoroTimer" where
  "updateSettings p e = e\<lparr>settings := spread (settings e) p\<rparr>"

definition getState :: "PomodoroTimer \<Rightarrow> TimerState" where
  "getState e = state e"

definition getSessionDuration :: "PomodoroSettings \<Rightarrow> SessionType \<Rightarrow> int" where
  "getSessionDuration s session =
     (case session of
        Work \<Rightarrow> workDuration s * 60 * 1000
      | Break \<Rightarrow> breakDuration s * 60 * 1000
      | LongBreak \<Rightarrow> longBreakDuration s * 60 * 1000)"

definition startTimer :: "int \<Rightarrow> int \<Rightarrow> PomodoroTimer \<Rightarrow> PomodoroTimer" where
  "startTimer now duration e =
     e\<lparr> startTime := now, endTime := now + duration,
        intervalId := Some (hostNextId e),
        hostIntervals := insert (hostNextId e) (hostIntervals e),
        hostNextId := Suc (hostNextId e) \<rparr>"

definition stopInterval :: "PomodoroTimer \<Rightarrow> PomodoroTimer" where
  "stopInterval e =
     (case intervalId e of
        None \<Rightarrow> e
      | Some i \<Rightarrow> e\<lparr> hostIntervals := hostIntervals e - {i}, intervalId := None \<rparr>)"

definition notifyStateChange :: "PomodoroTimer \<Rightarrow> Event list" where
  "notifyStateChange e =
     (if onStateChange (callbacks e) then [OnStateChange (getState e)] else [])"

text \<open>
  The remainder \<open>a % b\<close> of JavaScript on integers: truncated, with the sign of the
  dividend (\<open>js_trunc_rem\<close>, for \<open>b \<noteq> 0\<close>); \<open>None\<close> is the \<open>NaN\<close> of
  \<open>b = 0\<close>, which is not \<open>=== 0\<close>.
\<close>

definition js_trunc_rem :: "int \<Rightarrow> int \<Rightarrow> int" where
  "js_trunc_rem a b = sgn a * (\<bar>a\<bar> mod \<bar>b\<bar>)"

definition js_rem :: "int \<Rightarrow> int \<Rightarrow> int option" where
  "js_rem a b = (if b = 0 then None else Some (js_trunc_rem a b))"

definition getNextSession :: "PomodoroTimer \<Rightarrow> SessionType option" where
  "getNextSession e =
     (let cs = currentSession (state e); cset = currentSet (state e);
          ts = totalSets (settings e); lbi = longBreakInterval (settings e)
      in if cs = Work then
           (if cset \<ge> ts then None
            else if js_rem cset lbi = Some 0 then Some LongBreak
            else Some Break)
         else
           (if cset \<ge> ts then None else Some Work))"

definition handleSessionEnd :: "int \<Rightarrow> PomodoroTimer \<Rightarrow> PomodoroTimer \<times> Event list" where
  "handleSessionEnd now e =
     (let e1 = stopInterval e;
          endedSession = currentSession (state e1);
          nextSession = getNextSession e1;
          ev1 = (if onSessionEnd (callbacks e1)
                 then [OnSessionEnd endedSession nextSession] else [])
      in case nextSession of
           None \<Rightarrow>
             (let e2 = e1\<lparr>state := (state e1)\<lparr>status := Completed, remainingTime := 0\<rparr>\<rparr>;
                  ev2 = (if onComplete (callbacks e2) then [OnComplete] else [])
              in (e2, ev1 @ ev2 @ notifyStateChange e2))
         | Some ns \<Rightarrow>
             (let e2 = e1\<lparr>state := (state e1)\<lparr>currentSession := ns\<rparr>\<rparr>;
                  e3 = (if (endedSession = Break \<or> endedSession = LongBreak) \<and> ns = Work
                        then e2\<lparr>state := (state e2)\<lparr>currentSet := currentSet (state e2) + 1\<rparr>\<rparr>
                        else e2);
                  duration = getSessionDuration (settings e3) ns;
                  e4 = e3\<lparr>state := (state e3)\<lparr>totalDuration := duration,
                          remainingTime := duration, status := Running\<rparr>\<rparr>;
                  e5 = startTimer now duration e4
              in (e5, ev1 @ notifyStateChange e5)))"

definition resume :: "int \<Rightarrow> PomodoroTimer \<Rightarrow> PomodoroTimer \<times> Event list" where
  "resume now e =
     (if status (state e) \<noteq> Paused then (e, [])
      else
        (let e1 = e\<lparr>state := (state e)\<lparr>status := Running\<rparr>\<rparr>;
             e2 = startTimer now (pausedRemainingTime e1) e1
         in (e2, notifyStateChange e2)))"

definition start :: "int \<Rightarrow> PomodoroTimer \<Rightarrow> PomodoroTimer \<times> Event list" where
  "start now e =
     (if status (state e) = Running then (e, [])
      else if status (state e) = Paused then resume now e
      else
        (let e1 = e\<lparr>state := (state e)\<lparr>status := Running\<rparr>\<rparr>;
             duration = getSessionDuration (settings e1) (currentSession (state e1));
             e2 = e1\<lparr>state := (state e1)\<lparr>totalDuration := duration,
                     remainingTime := duration\<rparr>\<rparr>;
             e3 = startTimer now duration e2
         in (e3, notifyStateChange e3)))"

definition pause :: "PomodoroTimer \<Rightarrow> PomodoroTimer \<times> Event list" where
  "pause e =
     (if status (state e) \<noteq> Running then (e, [])
      else
        (let e1 = stopInterval e;
             e2 = e1\<lparr>pausedRemainingTime := remainingTime (state e1)\<rparr>;
             e3 = e2\<lparr>state := (state e2)\<lparr>status := Paused\<rparr>\<rparr>
         in (e3, notifyStateChange e3)))"

definition reset :: "PomodoroTimer \<Rightarrow> PomodoroTimer \<times> Event list" where
  "reset e =
     (let e1 = stopInterval e;
          e2 = e1\<lparr>state := createInitialState (settings e1)\<rparr>
      in (e2, notifyStateChange e2))"

definition skip :: "int \<Rightarrow> PomodoroTimer \<Rightarrow> PomodoroTimer \<times> Event list" where
  "skip now e =
     (if status (state e) = Idle \<or> status (state e) = Completed then (e, [])
      else handleSessionEnd now e)"

text \<open>
  One poll. \<open>now\<close> is the clock read by \<open>tick\<close> itself, \<open>now'\<close> the clock read
  by \<open>startTimer\<close> when the poll ends the session and a next session begins.
\<close>

definition tick :: "int \<Rightarrow> int \<Rightarrow> PomodoroTimer \<Rightarrow> PomodoroTimer \<times> Event list" where
  "tick now now' e =
     (let remaining = max 0 (endTime e - now);
          e1 = e\<lparr>state := (state e)\<lparr>remainingTime := remaining\<rparr>\<rparr>
      in if remaining = 0 then handleSessionEnd now' e1
         else (e1, if onTick (callbacks e1) then [OnTick (getState e1)] else []))"

text \<open>
  The quotient \<open>a / b\<close> of JavaScript; \<open>None\<close> is the \<open>NaN\<close> or infinity it gives
  for \<open>b = 0\<close>. \<open>getProgress\<close> returns a number, or \<open>None\<close> where the
  JavaScript would return one of these.
\<close>

definition js_div :: "real \<Rightarrow> real \<Rightarrow> real option" where
  "js_div a b = (if b = 0 then None else Some (a / b))"

definition getProgress :: "PomodoroTimer \<Rightarrow> real option" where
  "getProgress e =
     (if totalDuration (state e) = 0 then Some 0
      else
        (let elapsed = totalDuration (state e) - remainingTime (state e)
         in map_option (\<lambda>q. q * 100)
              (js_div (real_of_int elapsed) (real_of_int (totalDuration (state e))))))"

subsection \<open>formatTime\<close>

text \<open>
  \<open>Number.prototype.toString\<close> on an integer: the decimal digits, after a minus sign
  when the number is negative.
\<close>

definition digit_char :: "nat \<Rightarrow> char" where
  "digit_char d = ''0123456789'' ! d"

fun toString_nat :: "nat \<Rightarrow> string" where
  "toString_nat n =
     (if n < 10 then [digit_char n] else toString_nat (n div 10) @ [digit_char (n mod 10)])"

declare toString_nat.simps [simp del]

definition toString :: "int \<Rightarrow> string" where
  "toString i = (if i < 0 then CHR ''-'' # toString_nat (nat (- i)) else toString_nat (nat i))"

text \<open>\<open>String.prototype.padStart\<close> with a pad string of one character.\<close>

definition padStart :: "nat \<Rightarrow> char \<Rightarrow> string \<Rightarrow> string" where
  "padStart targetLength c s =
     (if length s \<ge> targetLength then s else replicate (targetLength - length s) c @ s)"

definition formatTime :: "real \<Rightarrow> string" where
  "formatTime ms =
     (let totalSeconds = \<lceil>ms / 1000\<rceil>;
          minutes = \<lfloor>real_of_int totalSeconds / 60\<rfloor>;
          seconds = js_trunc_rem totalSeconds 60
      in padStart 2 CHR ''0'' (toString minutes) @ '':'' @ padStart 2 CHR ''0'' (toString seconds))"

text \<open>
  Reading a field back: the number a string of decimal digits denotes. It is the
  specification side of \<open>toString\<close>, used to say what a rendered field shows.
\<close>

definition is_digit :: "char \<Rightarrow> bool" where
  "is_digit c = (c \<in> set ''0123456789'')"

definition digit_val :: "char \<Rightarrow> nat" where
  "digit_val c = of_char c - 48"

definition decimal_val :: "string \<Rightarrow> nat" where
  "decimal_val s = foldl (\<lambda>acc c. 10 * acc + digit_val c) 0 s"

section \<open>Runs of the engine\<close>

text \<open>
  What can happen to an engine: a call of one of its public operations, or the host
  firing the interval callback (\<open>Poll\<close>), which calls \<open>tick\<close>. The host fires
  only while it holds an active interval. The integers are the clock values the
  operation reads.
\<close>

datatype Action =
    Start int
  | Pause
  | Reset
  | Skip int
  | Poll int int
  | UpdateSettings PartialSettings

definition fire :: "int \<Rightarrow> int \<Rightarrow> PomodoroTimer \<Rightarrow> PomodoroTimer \<times> Event list" where
  "fire now now' e = (if hostIntervals e = {} then (e, []) else tick now now' e)"

fun apply_action :: "Action \<Rightarrow> PomodoroTimer \<Rightarrow> PomodoroTimer \<times> Event list" where
  "apply_action (Start now) e = start now e"
| "apply_action Pause e = pause e"
| "apply_action Reset e = reset e"
| "apply_action (Skip now) e = skip now e"
| "apply_action (Poll now now') e = fire now now' e"
| "apply_action (UpdateSettings p) e = (updateSettings p e, [])"

fun run :: "Action list \<Rightarrow> PomodoroTimer \<Rightarrow> PomodoroTimer \<times> Event list" where
  "run [] e = (e, [])"
| "run (a # acts) e =
     (let (e1, ev1) = apply_action a e; (e2, ev2) = run acts e1 in (e2, ev1 @ ev2))"



text \<open>Actions that leave the configuration alone, and actions of one uninterrupted run.\<close>

fun keeps_settings :: "Action \<Rightarrow> bool" where
  "keeps_settings (UpdateSettings p) = False"
| "keeps_settings a = True"


text \<open>
  A clock that does not go back: every value an action reads is at least the value read
  before it, starting from \<open>t\<close>.
\<close>

fun clock_ok :: "int \<Rightarrow> Action list \<Rightarrow> bool" where
  "clock_ok t [] = True"
| "clock_ok t (Start now # acts) = (t \<le> now \<and> clock_ok now acts)"
| "clock_ok t (Skip now # acts) = (t \<le> now \<and> clock_ok now acts)"
| "clock_ok t (Poll now now' # acts) = (t \<le> now \<and> now \<le> now' \<and> clock_ok now' acts)"
| "clock_ok t (a # acts) = clock_ok t acts"

text \<open>Counting the calls of a slot in a list of events.\<close>

fun is_session_end :: "Event \<Rightarrow> bool" where
  "is_session_end (OnSessionEnd ended nxt) = True"
| "is_session_end ev = False"

fun is_complete :: "Event \<Rightarrow> bool" where
  "is_complete OnComplete = True"
| "is_complete ev = False"

definition session_ends :: "Event list \<Rightarrow> int" where
  "session_ends evs = int (length (filter is_session_end evs))"

definition completions :: "Event list \<Rightarrow> int" where
  "completions evs = int (length (filter is_complete evs))"

text \<open>
  The engine and the host agree on the interval: the host holds exactly the interval the
  engine remembers, the engine remembers one exactly while it is running, and the handle
  the host gives out next is fresh.
\<close>

definition interval_ok :: "PomodoroTimer \<Rightarrow> bool" where
  "interval_ok e =
     (hostIntervals e = set_option (intervalId e) \<and>
      (intervalId e = None) = (status (state e) \<noteq> Running) \<and>
      hostIntervals e \<subseteq> {..<hostNextId e})"

text \<open>The set counter stays in range, and a break is never the break of the last set.\<close>

definition set_ok :: "PomodoroTimer \<Rightarrow> bool" where
  "set_ok e =
     (1 \<le> currentSet (state e) \<and> currentSet (state e) \<le> totalSets (settings e) \<and>
      (currentSession (state e) = Work \<or> currentSet (state e) < totalSets (settings e)))"

text \<open>
  The remaining time is the session's duration or lies between zero and it, the running
  countdown is no longer than the duration, and it did not start after \<open>t\<close>, the
  last clock value read. (A duration is negative only under a configuration that breaks
  the specification's invariant; \<open>max 0\<close> covers that case.)
\<close>

definition time_ok :: "int \<Rightarrow> PomodoroTimer \<Rightarrow> bool" where
  "time_ok t e =
     ((remainingTime (state e) = totalDuration (state e) \<or>
       (0 \<le> remainingTime (state e) \<and>
        remainingTime (state e) \<le> max 0 (totalDuration (state e)))) \<and>
      (if status (state e) = Running
       then startTime e \<le> t \<and> endTime e - startTime e \<le> max 0 (totalDuration (state e))
       else True) \<and>
      (if status (state e) = Paused
       then pausedRemainingTime e \<le> max 0 (totalDuration (state e))
       else True))"



text \<open>Two engines to try the theorems on: one just constructed, one started at time 1000.\<close>

definition all_callbacks :: TimerCallbacks where
  "all_callbacks = \<lparr> onTick = True, onSessionEnd = True, onComplete = True, onStateChange = True \<rparr>"

definition fresh_timer :: PomodoroTimer where
  "fresh_timer = construct (all_fields DEFAULT_SETTINGS) all_callbacks"

definition running_timer :: PomodoroTimer where
  "running_timer = fst (start 1000 fresh_timer)"

definition polled_timer :: PomodoroTimer where
  "polled_timer = fst (tick 601000 601000 running_timer)"

section \<open>Basic facts about the operations\<close>

lemma stopInterval_fields [simp]:
  "state (stopInterval e) = state e"
  "settings (stopInterval e) = settings e"
  "callbacks (stopInterval e) = callbacks e"
  "startTime (stopInterval e) = startTime e"
  "endTime (stopInterval e) = endTime e"
  "pausedRemainingTime (stopInterval e) = pausedRemainingTime e"
  "intervalId (stopInterval e) = None"
  "hostNextId (stopInterval e) = hostNextId e"
  by (simp_all add: stopInterval_def split: option.split)

lemma stopInterval_host:
  "hostIntervals (stopInterval e) =
     (case intervalId e of None \<Rightarrow> hostIntervals e | Some i \<Rightarrow> hostIntervals e - {i})"
  by (simp add: stopInterval_def split: option.split)

lemma stopInterval_state_update [simp]:
  "stopInterval (e\<lparr>state := s\<rparr>) = (stopInterval e)\<lparr>state := s\<rparr>"
  by (simp add: stopInterval_def split: option.split)

lemma startTimer_fields [simp]:
  "state (startTimer now d e) = state e"
  "settings (startTimer now d e) = settings e"
  "callbacks (startTimer now d e) = callbacks e"
  "startTime (startTimer now d e) = now"
  "endTime (startTimer now d e) = now + d"
  "pausedRemainingTime (startTimer now d e) = pausedRemainingTime e"
  "intervalId (startTimer now d e) = Some (hostNextId e)"
  "hostNextId (startTimer now d e) = Suc (hostNextId e)"
  "hostIntervals (startTimer now d e) = insert (hostNextId e) (hostIntervals e)"
  by (simp_all add: startTimer_def)

lemma getNextSession_state_cong:
  "getNextSession (e\<lparr>state := (state e)\<lparr>remainingTime := r\<rparr>\<rparr>) = getNextSession e"
  by (simp add: getNextSession_def)

lemma getNextSession_stopInterval [simp]:
  "getNextSession (stopInterval e) = getNextSession e"
  by (simp add: getNextSession_def)

lemma js_rem_zero_iff: "(js_rem a b = Some 0) = (b \<noteq> 0 \<and> b dvd a)"
proof (cases "b = 0")
  case True
  then show ?thesis by (simp add: js_rem_def)
next
  case False
  have "(\<bar>a\<bar> mod \<bar>b\<bar> = 0) = (b dvd a)"
    by (simp add: dvd_eq_mod_eq_0 [symmetric])
  moreover have "(sgn a * (\<bar>a\<bar> mod \<bar>b\<bar>) = 0) = (\<bar>a\<bar> mod \<bar>b\<bar> = 0)"
    by (cases "a = 0") (simp_all add: sgn_if)
  ultimately show ?thesis using False by (simp add: js_rem_def js_trunc_rem_def)
qed

subsection \<open>The transition function\<close>

text \<open>
  Claim C1. The transition function is the state machine of the specification. After
  \<open>work\<close>: no next session when \<open>currentSet \<ge> totalSets\<close>, else a long break
  when \<open>currentSet % longBreakInterval\<close> is zero (that is, when the interval is not zero
  and divides the set number), else a break. After a break or a long break: no next
  session when \<open>currentSet \<ge> totalSets\<close>, else \<open>work\<close>. A session end adds one to
  \<open>currentSet\<close> exactly when it leads from a break or long break to work, and never
  otherwise; it moves to the next session, running, or to \<open>Completed\<close>.
\<close>

theorem session_transition:
  "getNextSession e =
     (if currentSession (state e) = Work
      then (if totalSets (settings e) \<le> currentSet (state e) then None
            else if js_rem (currentSet (state e)) (longBreakInterval (settings e)) = Some 0
                 then Some LongBreak else Some Break)
      else (if totalSets (settings e) \<le> currentSet (state e) then None else Some Work))
   \<and> (js_rem (currentSet (state e)) (longBreakInterval (settings e)) = Some 0) =
       (longBreakInterval (settings e) \<noteq> 0 \<and>
        longBreakInterval (settings e) dvd currentSet (state e))
   \<and> currentSet (state (fst (handleSessionEnd now e))) =
       (if currentSession (state e) \<noteq> Work \<and> currentSet (state e) < totalSets (settings e)
        then currentSet (state e) + 1 else currentSet (state e))
   \<and> currentSession (state (fst (handleSessionEnd now e))) =
       (case getNextSession e of None \<Rightarrow> currentSession (state e) | Some ns \<Rightarrow> ns)
   \<and> status (state (fst (handleSessionEnd now e))) =
       (case getNextSession e of None \<Rightarrow> Completed | Some ns \<Rightarrow> Running)"
proof -
  have next_eq: "getNextSession e =
     (if currentSession (state e) = Work
      then (if totalSets (settings e) \<le> currentSet (state e) then None
            else if js_rem (currentSet (state e)) (longBreakInterval (settings e)) = Some 0
                 then Some LongBreak else Some Break)
      else (if totalSets (settings e) \<le> currentSet (state e) then None else Some Work))"
    by (simp add: getNextSession_def Let_def)
  have cset: "currentSet (state (fst (handleSessionEnd now e))) =
       (if currentSession (state e) \<noteq> Work \<and> currentSet (state e) < totalSets (settings e)
        then currentSet (state e) + 1 else currentSet (state e))"
    by (cases "currentSession (state e)")
       (simp_all add: handleSessionEnd_def getNextSession_def Let_def)
  have csess: "currentSession (state (fst (handleSessionEnd now e))) =
       (case getNextSession e of None \<Rightarrow> currentSession (state e) | Some ns \<Rightarrow> ns)"
    by (simp add: handleSessionEnd_def Let_def split: option.split)
  have stat: "status (state (fst (handleSessionEnd now e))) =
       (case getNextSession e of None \<Rightarrow> Completed | Some ns \<Rightarrow> Running)"
    by (simp add: handleSessionEnd_def Let_def split: option.split)
  from next_eq js_rem_zero_iff cset csess stat show ?thesis by blast
qed

subsection \<open>Reset\<close>

text \<open>
  Claim C6. Whatever the engine's state, after \<open>reset()\<close> the session state is that
  of an engine newly constructed with the same configuration: idle, work, set 1, and
  \<open>remainingTime = totalDuration\<close> = the configured work duration (in milliseconds).
\<close>

theorem reset_initial:
  "state (fst (reset e)) = state (construct (all_fields (settings e)) cb)
   \<and> state (fst (reset e)) = createInitialState (settings e)
   \<and> status (state (fst (reset e))) = Idle
   \<and> currentSession (state (fst (reset e))) = Work
   \<and> currentSet (state (fst (reset e))) = 1
   \<and> remainingTime (state (fst (reset e))) = workDuration (settings e) * 60 * 1000
   \<and> totalDuration (state (fst (reset e))) = workDuration (settings e) * 60 * 1000
   \<and> settings (fst (reset e)) = settings e
   \<and> intervalId (fst (reset e)) = None"
  by (simp add: reset_def construct_def createInitialState_def Let_def spread_def all_fields_def
      DEFAULT_SETTINGS_def)

subsection \<open>Operations in a state where they do nothing\<close>

text \<open>
  Claim C8. \<open>pause()\<close> when not running, \<open>start()\<close> when running and
  \<open>skip()\<close> when idle or completed change nothing in the engine and call no callback.
  (The model's operations are total: none of them raises.)
\<close>

theorem invalid_state_noop:
  "(status (state e) \<noteq> Running \<longrightarrow> pause e = (e, []))
   \<and> (status (state e) = Running \<longrightarrow> start now e = (e, []))
   \<and> (status (state e) = Idle \<or> status (state e) = Completed \<longrightarrow> skip now e = (e, []))"
  by (simp add: pause_def start_def skip_def)


subsection \<open>The end of a session\<close>

lemma handleSessionEnd_None:
  "getNextSession e = None \<Longrightarrow>
   handleSessionEnd now e =
     ((stopInterval e)\<lparr>state := (state e)\<lparr>status := Completed, remainingTime := 0\<rparr>\<rparr>,
      (if onSessionEnd (callbacks e) then [OnSessionEnd (currentSession (state e)) None] else []) @
      (if onComplete (callbacks e) then [OnComplete] else []) @
      (if onStateChange (callbacks e)
       then [OnStateChange ((state e)\<lparr>status := Completed, remainingTime := 0\<rparr>)] else []))"
  by (simp add: handleSessionEnd_def Let_def notifyStateChange_def getState_def)

lemma handleSessionEnd_Some:
  "getNextSession e = Some ns \<Longrightarrow>
   handleSessionEnd now e =
     (startTimer now (getSessionDuration (settings e) ns)
        ((stopInterval e)\<lparr>state := (state e)\<lparr>currentSession := ns,
           currentSet := (if currentSession (state e) \<noteq> Work \<and> ns = Work
                          then currentSet (state e) + 1 else currentSet (state e)),
           totalDuration := getSessionDuration (settings e) ns,
           remainingTime := getSessionDuration (settings e) ns,
           status := Running\<rparr>\<rparr>),
      (if onSessionEnd (callbacks e)
       then [OnSessionEnd (currentSession (state e)) (Some ns)] else []) @
      (if onStateChange (callbacks e)
       then [OnStateChange ((state e)\<lparr>currentSession := ns,
           currentSet := (if currentSession (state e) \<noteq> Work \<and> ns = Work
                          then currentSet (state e) + 1 else currentSet (state e)),
           totalDuration := getSessionDuration (settings e) ns,
           remainingTime := getSessionDuration (settings e) ns,
           status := Running\<rparr>)] else []))"
  by (cases "currentSession (state e)")
     (simp_all add: handleSessionEnd_def Let_def notifyStateChange_def getState_def startTimer_def)

lemma handleSessionEnd_remaining:
  "handleSessionEnd t (e\<lparr>state := (state e)\<lparr>remainingTime := r\<rparr>\<rparr>) = handleSessionEnd t e"
proof (cases "getNextSession e")
  case None
  then have "getNextSession (e\<lparr>state := (state e)\<lparr>remainingTime := r\<rparr>\<rparr>) = None"
    by (simp add: getNextSession_state_cong)
  from handleSessionEnd_None [OF this] handleSessionEnd_None [OF None] show ?thesis
    by simp
next
  case (Some ns)
  then have "getNextSession (e\<lparr>state := (state e)\<lparr>remainingTime := r\<rparr>\<rparr>) = Some ns"
    by (simp add: getNextSession_state_cong)
  from handleSessionEnd_Some [OF this] handleSessionEnd_Some [OF Some] show ?thesis
    by (simp add: startTimer_def)
qed

lemma tick_expired: "endTime e \<le> now \<Longrightarrow> tick now t e = handleSessionEnd t e"
proof -
  assume le: "endTime e \<le> now"
  then have "max 0 (endTime e - now) = 0" by simp
  then show ?thesis by (simp add: tick_def Let_def handleSessionEnd_remaining)
qed

lemma tick_before:
  "now < endTime e \<Longrightarrow>
   tick now t e =
     (e\<lparr>state := (state e)\<lparr>remainingTime := endTime e - now\<rparr>\<rparr>,
      if onTick (callbacks e)
      then [OnTick ((state e)\<lparr>remainingTime := endTime e - now\<rparr>)] else [])"
  by (simp add: tick_def Let_def getState_def max_def)

lemma handleSessionEnd_state_indep:
  "state (fst (handleSessionEnd t e)) = state (fst (handleSessionEnd t' e))"
  by (cases "getNextSession e") (simp_all add: handleSessionEnd_None handleSessionEnd_Some)

lemma handleSessionEnd_events_indep:
  "snd (handleSessionEnd t e) = snd (handleSessionEnd t' e)"
  by (cases "getNextSession e") (simp_all add: handleSessionEnd_None handleSessionEnd_Some)

lemma handleSessionEnd_events:
  "snd (handleSessionEnd t e) =
     (if onSessionEnd (callbacks e)
      then [OnSessionEnd (currentSession (state e)) (getNextSession e)] else []) @
     (if getNextSession e = None \<and> onComplete (callbacks e) then [OnComplete] else []) @
     (if onStateChange (callbacks e)
      then [OnStateChange (state (fst (handleSessionEnd t e)))] else [])"
  by (simp add: handleSessionEnd_def Let_def notifyStateChange_def getState_def split: option.split)

subsection \<open>Skip and expiry\<close>

text \<open>
  Claim C5. On a running engine, \<open>skip()\<close> and the poll that finds the countdown at
  zero lead to the same session state and make the same callbacks: \<open>onSessionEnd\<close>,
  then \<open>onComplete\<close> when there is no next session, then \<open>onStateChange\<close> with
  the new state. With the same clock value read by \<open>startTimer\<close>, the two engines are
  equal in every field.
\<close>

theorem skip_equals_expiry:
  assumes "status (state e) = Running" and "endTime e \<le> now"
  shows "tick now t e = skip t e
     \<and> state (fst (skip t e)) = state (fst (tick now now' e))
     \<and> snd (skip t e) = snd (tick now now' e)
     \<and> snd (skip t e) =
         (if onSessionEnd (callbacks e)
          then [OnSessionEnd (currentSession (state e)) (getNextSession e)] else []) @
         (if getNextSession e = None \<and> onComplete (callbacks e) then [OnComplete] else []) @
         (if onStateChange (callbacks e)
          then [OnStateChange (state (fst (skip t e)))] else [])"
proof -
  from assms(1) have sk: "skip t e = handleSessionEnd t e" by (simp add: skip_def)
  from assms(2) have tk: "tick now t e = handleSessionEnd t e"
    and tk': "tick now now' e = handleSessionEnd now' e"
    by (simp_all add: tick_expired)
  show ?thesis
    unfolding sk tk tk'
    using handleSessionEnd_state_indep [of t e now'] handleSessionEnd_events_indep [of t e now']
      handleSessionEnd_events [of t e]
    by simp
qed

subsection \<open>Pause and resume\<close>

lemma interval_ok_stop:
  "interval_ok e \<Longrightarrow> hostIntervals (stopInterval e) = {}"
  by (cases "intervalId e") (simp_all add: interval_ok_def stopInterval_host)

lemma run_append:
  "fst (run (xs @ ys) e) = fst (run ys (fst (run xs e)))"
  by (induction xs arbitrary: e) (simp_all add: split_beta Let_def)

lemma run_polls_no_interval:
  "hostIntervals e = {} \<Longrightarrow> run (map (\<lambda>p. Poll (fst p) (snd p)) ps) e = (e, [])"
  by (induction ps) (simp_all add: fire_def)

text \<open>
  Claim C3. \<open>pause()\<close> on a running engine with \<open>remainingTime = T\<close> keeps
  \<open>T\<close> as \<open>pausedRemainingTime\<close> and clears the interval at the host, so that
  for the length of the pause no poll reaches the engine: any polls the host might be
  asked to fire then change nothing and call nothing. The \<open>start()\<close> that resumes
  it, at any later clock value \<open>now\<close> and after any such pause, sets the end timestamp
  to \<open>now + T\<close>, restores the running state and sets one new interval. A poll \<open>d\<close>
  milliseconds after the resume shows \<open>T - d\<close> remaining when \<open>d < T\<close> and ends
  the session when \<open>d \<ge> T\<close>: the countdown takes exactly \<open>T\<close> more, however
  long the pause was.
\<close>

theorem pause_resume_exact:
  assumes "interval_ok e" and "status (state e) = Running"
  shows "status (state (fst (pause e))) = Paused
     \<and> pausedRemainingTime (fst (pause e)) = remainingTime (state e)
     \<and> remainingTime (state (fst (pause e))) = remainingTime (state e)
     \<and> intervalId (fst (pause e)) = None
     \<and> hostIntervals (fst (pause e)) = {}
     \<and> run (map (\<lambda>p. Poll (fst p) (snd p)) ps) (fst (pause e)) = (fst (pause e), [])
     \<and> fst (run (Pause # map (\<lambda>p. Poll (fst p) (snd p)) ps @ [Start now]) e) =
         fst (start now (fst (pause e)))
     \<and> state (fst (start now (fst (pause e)))) = state e
     \<and> startTime (fst (start now (fst (pause e)))) = now
     \<and> endTime (fst (start now (fst (pause e)))) = now + remainingTime (state e)
     \<and> hostIntervals (fst (start now (fst (pause e)))) = {hostNextId e}
     \<and> fire (now + d) t (fst (start now (fst (pause e)))) =
         tick (now + d) t (fst (start now (fst (pause e))))
     \<and> tick (now + d) t (fst (start now (fst (pause e)))) =
         (if d < remainingTime (state e)
          then ((fst (start now (fst (pause e))))
                  \<lparr>state := (state e)\<lparr>remainingTime := remainingTime (state e) - d\<rparr>\<rparr>,
                if onTick (callbacks e)
                then [OnTick ((state e)\<lparr>remainingTime := remainingTime (state e) - d\<rparr>)]
                else [])
          else handleSessionEnd t (fst (start now (fst (pause e)))))"
proof -
  let ?e1 = "fst (pause e)"
  let ?e2 = "fst (start now ?e1)"
  let ?polls = "map (\<lambda>p. Poll (fst p) (snd p)) ps"
  have p: "?e1 = (stopInterval e)\<lparr>pausedRemainingTime := remainingTime (state e),
             state := (state e)\<lparr>status := Paused\<rparr>\<rparr>"
    using assms(2) by (simp add: pause_def Let_def)
  have r: "?e2 = startTimer now (remainingTime (state e)) (?e1\<lparr>state := (state e)\<rparr>)"
    using assms(2) by (simp add: p start_def resume_def Let_def)
  have e2_state: "state ?e2 = state e" by (simp add: r)
  have e2_end: "endTime ?e2 = now + remainingTime (state e)" by (simp add: r)
  have "callbacks ?e1 = callbacks e" by (simp add: p)
  then have e2_cb: "callbacks ?e2 = callbacks e" by (simp add: r)
  have tk: "tick (now + d) t ?e2 =
         (if d < remainingTime (state e)
          then (?e2\<lparr>state := (state e)\<lparr>remainingTime := remainingTime (state e) - d\<rparr>\<rparr>,
                if onTick (callbacks e)
                then [OnTick ((state e)\<lparr>remainingTime := remainingTime (state e) - d\<rparr>)]
                else [])
          else handleSessionEnd t ?e2)"
  proof (cases "d < remainingTime (state e)")
    case True
    then have "now + d < endTime ?e2" by (simp add: e2_end)
    from tick_before [OF this, of t] True show ?thesis
      by (simp add: e2_state e2_end e2_cb)
  next
    case False
    then have "endTime ?e2 \<le> now + d" by (simp add: e2_end)
    from tick_expired [OF this, of t] False show ?thesis by simp
  qed
  have a: "status (state ?e1) = Paused" "pausedRemainingTime ?e1 = remainingTime (state e)"
    "remainingTime (state ?e1) = remainingTime (state e)" "intervalId ?e1 = None"
    by (simp_all add: p)
  have h1: "hostIntervals ?e1 = {}"
    using interval_ok_stop [OF assms(1)] by (simp add: p)
  have quiet: "run ?polls ?e1 = (?e1, [])"
    using h1 by (rule run_polls_no_interval)
  have "fst (run (Pause # ?polls @ [Start now]) e) = fst (run (?polls @ [Start now]) ?e1)"
    by (simp add: split_beta Let_def)
  also have "\<dots> = fst (run [Start now] (fst (run ?polls ?e1)))" by (rule run_append)
  also have "\<dots> = ?e2" by (simp add: quiet split_beta Let_def)
  finally have whole: "fst (run (Pause # ?polls @ [Start now]) e) = ?e2" .
  have "hostNextId ?e1 = hostNextId e" by (simp add: p)
  with h1 have h2: "hostIntervals ?e2 = {hostNextId e}" by (simp add: r)
  then have fr: "fire (now + d) t ?e2 = tick (now + d) t ?e2" by (simp add: fire_def)
  have b: "startTime ?e2 = now" by (simp add: r)
  from a h1 quiet whole e2_state b e2_end h2 fr tk show ?thesis by blast
qed

subsection \<open>The example engines, and the theorems on them\<close>

lemma fresh_timer_eq:
  "fresh_timer =
     \<lparr> settings = DEFAULT_SETTINGS,
       state = \<lparr> status = Idle, currentSession = Work, currentSet = 1,
                 remainingTime = 1500000, totalDuration = 1500000 \<rparr>,
       callbacks = all_callbacks, intervalId = None, startTime = 0, endTime = 0,
       pausedRemainingTime = 0, hostIntervals = {}, hostNextId = 1 \<rparr>"
  by (simp add: fresh_timer_def construct_def spread_def all_fields_def DEFAULT_SETTINGS_def
      createInitialState_def Let_def)

lemma running_timer_eq:
  "running_timer =
     \<lparr> settings = DEFAULT_SETTINGS,
       state = \<lparr> status = Running, currentSession = Work, currentSet = 1,
                 remainingTime = 1500000, totalDuration = 1500000 \<rparr>,
       callbacks = all_callbacks, intervalId = Some 1, startTime = 1000, endTime = 1501000,
       pausedRemainingTime = 0, hostIntervals = {1}, hostNextId = 2 \<rparr>"
  by (simp add: running_timer_def fresh_timer_eq start_def Let_def startTimer_def
      getSessionDuration_def DEFAULT_SETTINGS_def)

lemma polled_timer_eq:
  "polled_timer =
     \<lparr> settings = DEFAULT_SETTINGS,
       state = \<lparr> status = Running, currentSession = Work, currentSet = 1,
                 remainingTime = 900000, totalDuration = 1500000 \<rparr>,
       callbacks = all_callbacks, intervalId = Some 1, startTime = 1000, endTime = 1501000,
       pausedRemainingTime = 0, hostIntervals = {1}, hostNextId = 2 \<rparr>"
  by (simp add: polled_timer_def running_timer_eq tick_def Let_def)

theorem invalid_state_noop_witness:
  "status (state fresh_timer) = Idle \<and> pause fresh_timer = (fresh_timer, []) \<and>
   skip 7 fresh_timer = (fresh_timer, []) \<and>
   status (state running_timer) = Running \<and> start 7 running_timer = (running_timer, [])"
proof -
  have a: "status (state fresh_timer) = Idle" by (simp add: fresh_timer_eq)
  have b: "status (state running_timer) = Running" by (simp add: running_timer_eq)
  from a b invalid_state_noop [of fresh_timer 7] invalid_state_noop [of running_timer 7]
  show ?thesis by simp
qed

theorem skip_equals_expiry_witness:
  "status (state running_timer) = Running \<and> endTime running_timer \<le> 1501000 \<and>
   tick 1501000 5000 running_timer = skip 5000 running_timer \<and>
   state (fst (skip 5000 running_timer)) = state (fst (tick 1501000 1501003 running_timer)) \<and>
   snd (skip 5000 running_timer) = snd (tick 1501000 1501003 running_timer) \<and>
   snd (skip 5000 running_timer) =
     [OnSessionEnd Work (Some Break),
      OnStateChange \<lparr> status = Running, currentSession = Break, currentSet = 1,
                      remainingTime = 300000, totalDuration = 300000 \<rparr>]"
proof -
  have a: "status (state running_timer) = Running" by (simp add: running_timer_eq)
  have b: "endTime running_timer \<le> 1501000" by (simp add: running_timer_eq)
  have c: "snd (skip 5000 running_timer) =
     [OnSessionEnd Work (Some Break),
      OnStateChange \<lparr> status = Running, currentSession = Break, currentSet = 1,
                      remainingTime = 300000, totalDuration = 300000 \<rparr>]"
    by (simp add: running_timer_eq skip_def handleSessionEnd_def Let_def getNextSession_def
        js_rem_def js_trunc_rem_def stopInterval_def startTimer_def notifyStateChange_def
        getState_def getSessionDuration_def DEFAULT_SETTINGS_def all_callbacks_def)
  from a b c skip_equals_expiry [OF a b, of 5000 1501003] show ?thesis by simp
qed

theorem pause_resume_exact_witness:
  "interval_ok polled_timer \<and>
   status (state polled_timer) = Running \<and> remainingTime (state polled_timer) = 900000 \<and>
   pausedRemainingTime (fst (pause polled_timer)) = 900000 \<and>
   hostIntervals (fst (pause polled_timer)) = {} \<and>
   run [Poll 2000000 2000000, Poll 4000000 4000001] (fst (pause polled_timer)) =
     (fst (pause polled_timer), []) \<and>
   fst (run [Pause, Poll 2000000 2000000, Poll 4000000 4000001, Start 5000000] polled_timer) =
     fst (start 5000000 (fst (pause polled_timer))) \<and>
   endTime (fst (start 5000000 (fst (pause polled_timer)))) = 5900000 \<and>
   remainingTime (state (fst (tick 5899999 5899999
     (fst (start 5000000 (fst (pause polled_timer))))))) = 1 \<and>
   tick 5900000 5900000 (fst (start 5000000 (fst (pause polled_timer)))) =
     handleSessionEnd 5900000 (fst (start 5000000 (fst (pause polled_timer))))"
proof -
  have i: "interval_ok polled_timer" by (simp add: polled_timer_eq interval_ok_def)
  have a: "status (state polled_timer) = Running" by (simp add: polled_timer_eq)
  have b: "remainingTime (state polled_timer) = 900000" by (simp add: polled_timer_eq)
  from i a b
    pause_resume_exact [OF i a, of "[(2000000, 2000000), (4000000, 4000001)]" 5000000
      899999 5899999]
    pause_resume_exact [OF i a, of "[(2000000, 2000000), (4000000, 4000001)]" 5000000
      900000 5900000]
  show ?thesis by simp
qed

section \<open>Rendering a time\<close>

lemma digit_val_digit_char: "d < 10 \<Longrightarrow> digit_val (digit_char d) = d"
proof -
  assume "d < 10"
  then have "d \<in> {0, 1, 2, 3, 4, 5, 6, 7, 8, 9}" by auto
  then show ?thesis by (auto simp: digit_val_def digit_char_def)
qed

lemma is_digit_digit_char: "d < 10 \<Longrightarrow> is_digit (digit_char d)"
proof -
  assume "d < 10"
  then have "d \<in> {0, 1, 2, 3, 4, 5, 6, 7, 8, 9}" by auto
  then show ?thesis by (auto simp: is_digit_def digit_char_def)
qed

lemma decimal_val_snoc: "decimal_val (s @ [c]) = 10 * decimal_val s + digit_val c"
  by (simp add: decimal_val_def)

lemma decimal_val_single: "decimal_val [c] = digit_val c"
  by (simp add: decimal_val_def)

lemma decimal_val_toString_nat: "decimal_val (toString_nat n) = n"
proof (induction n rule: toString_nat.induct)
  case (1 n)
  show ?case
  proof (cases "n < 10")
    case True
    then show ?thesis
      by (subst toString_nat.simps) (simp add: decimal_val_single digit_val_digit_char)
  next
    case False
    with 1 have "decimal_val (toString_nat (n div 10)) = n div 10" by simp
    with False show ?thesis
      by (subst toString_nat.simps) (simp add: decimal_val_snoc digit_val_digit_char)
  qed
qed

lemma digits_toString_nat: "list_all is_digit (toString_nat n)"
proof (induction n rule: toString_nat.induct)
  case (1 n)
  show ?case
  proof (cases "n < 10")
    case True
    then show ?thesis
      by (subst toString_nat.simps) (simp add: is_digit_digit_char)
  next
    case False
    with 1 have "list_all is_digit (toString_nat (n div 10))" by simp
    with False show ?thesis
      by (subst toString_nat.simps) (simp add: is_digit_digit_char)
  qed
qed

lemma length_toString_nat_small: "n < 10 \<Longrightarrow> length (toString_nat n) = 1"
  by (subst toString_nat.simps) simp

lemma length_toString_nat_two: "10 \<le> n \<Longrightarrow> n < 100 \<Longrightarrow> length (toString_nat n) = 2"
  by (subst toString_nat.simps) (simp add: length_toString_nat_small)

lemma length_toString_nat_pos: "1 \<le> length (toString_nat n)"
  by (subst toString_nat.simps) simp

lemma length_toString_nat_big: "10 \<le> n \<Longrightarrow> 2 \<le> length (toString_nat n)"
  using length_toString_nat_pos [of "n div 10"]
  by (subst toString_nat.simps) simp

lemma decimal_val_zero_cons: "decimal_val (CHR ''0'' # s) = decimal_val s"
  by (simp add: decimal_val_def digit_val_def)

text \<open>A two-place field: what \<open>padStart(2, "0")\<close> makes of a natural number.\<close>

lemma pad2_props:
  "length (padStart 2 CHR ''0'' (toString_nat n)) \<ge> 2 \<and>
   (n < 100 \<longrightarrow> length (padStart 2 CHR ''0'' (toString_nat n)) = 2) \<and>
   list_all is_digit (padStart 2 CHR ''0'' (toString_nat n)) \<and>
   decimal_val (padStart 2 CHR ''0'' (toString_nat n)) = n"
proof (cases "n < 10")
  case True
  then have "padStart 2 CHR ''0'' (toString_nat n) = CHR ''0'' # toString_nat n"
    by (simp add: padStart_def length_toString_nat_small)
  with True show ?thesis
    by (simp add: length_toString_nat_small decimal_val_zero_cons decimal_val_toString_nat
        digits_toString_nat is_digit_def)
next
  case False
  then have ge: "2 \<le> length (toString_nat n)" by (simp add: length_toString_nat_big)
  then have "padStart 2 CHR ''0'' (toString_nat n) = toString_nat n"
    by (simp add: padStart_def)
  with False ge show ?thesis
    by (simp add: length_toString_nat_two decimal_val_toString_nat digits_toString_nat)
qed

lemma js_trunc_rem_nonneg: "0 \<le> n \<Longrightarrow> js_trunc_rem n 60 = n mod 60"
  by (cases "n = 0") (simp_all add: js_trunc_rem_def sgn_if)

lemma formatTime_nonneg:
  assumes "0 \<le> ms"
  shows "formatTime ms =
     padStart 2 CHR ''0'' (toString_nat (nat \<lceil>ms / 1000\<rceil> div 60)) @ '':'' @
     padStart 2 CHR ''0'' (toString_nat (nat \<lceil>ms / 1000\<rceil> mod 60))"
proof -
  let ?n = "\<lceil>ms / 1000\<rceil>"
  from assms have n0: "0 \<le> ?n" by (simp add: ceiling_le_iff le_ceiling_iff)
  have fl: "\<lfloor>real_of_int ?n / 60\<rfloor> = ?n div 60"
    using floor_divide_of_int_eq [of ?n 60, where ?'a = real] by simp
  have d0: "0 \<le> ?n div 60" using n0 by (simp add: pos_imp_zdiv_nonneg_iff)
  have rem: "js_trunc_rem ?n 60 = ?n mod 60"
    using n0 by (rule js_trunc_rem_nonneg)
  have a: "toString (?n div 60) = toString_nat (nat ?n div 60)"
    using d0 n0 by (simp add: toString_def nat_div_distrib)
  have b: "toString (?n mod 60) = toString_nat (nat ?n mod 60)"
    using n0 by (simp add: toString_def nat_mod_distrib)
  show ?thesis
    unfolding formatTime_def Let_def fl rem a b ..
qed

lemma ceiling_one_thousandth: "\<lceil>(1::real) / 1000\<rceil> = 1"
  by (simp add: ceiling_eq_iff)

lemmas formatTime_eval =
  formatTime_def padStart_def toString_def toString_nat.simps digit_char_def js_trunc_rem_def

lemma formatTime_examples:
  "formatTime 0 = ''00:00''" "formatTime 1 = ''00:01''"
  "formatTime 60000 = ''01:00''" "formatTime 3600000 = ''60:00''"
  by (simp_all add: formatTime_eval ceiling_one_thousandth)

text \<open>
  Claim C7. \<open>formatTime\<close> depends on its argument only. For a time of \<open>ms \<ge> 0\<close>
  milliseconds it rounds up to \<open>\<lceil>ms / 1000\<rceil>\<close> whole seconds and renders
  \<open>MM:SS\<close>: the seconds field is two decimal digits showing the seconds modulo 60, the
  minutes field is decimal digits showing the whole minutes, two digits below 100 minutes
  and as many as the number needs from there on (no hours). In particular
  \<open>formatTime(0) = "00:00"\<close>, \<open>formatTime(1) = "00:01"\<close>,
  \<open>formatTime(60000) = "01:00"\<close> and \<open>formatTime(3600000) = "60:00"\<close>.
\<close>

theorem formatTime_rounds_up:
  assumes "0 \<le> ms"
  shows "(\<exists>mm ss. formatTime ms = mm @ '':'' @ ss
            \<and> 2 \<le> length mm \<and> (nat \<lceil>ms / 1000\<rceil> div 60 < 100 \<longrightarrow> length mm = 2)
            \<and> length ss = 2
            \<and> list_all is_digit mm \<and> list_all is_digit ss
            \<and> decimal_val mm = nat \<lceil>ms / 1000\<rceil> div 60
            \<and> decimal_val ss = nat \<lceil>ms / 1000\<rceil> mod 60)
     \<and> formatTime 0 = ''00:00'' \<and> formatTime 1 = ''00:01''
     \<and> formatTime 60000 = ''01:00'' \<and> formatTime 3600000 = ''60:00''"
proof -
  let ?m = "nat \<lceil>ms / 1000\<rceil> div 60"
  let ?s = "nat \<lceil>ms / 1000\<rceil> mod 60"
  let ?mm = "padStart 2 CHR ''0'' (toString_nat ?m)"
  let ?ss = "padStart 2 CHR ''0'' (toString_nat ?s)"
  have "?s < 100" by (rule less_trans [of _ 60]) simp_all
  with pad2_props [of ?s] have ss: "length ?ss = 2" "list_all is_digit ?ss" "decimal_val ?ss = ?s"
    by simp_all
  from pad2_props [of ?m]
  have mm: "2 \<le> length ?mm" "?m < 100 \<longrightarrow> length ?mm = 2" "list_all is_digit ?mm"
    "decimal_val ?mm = ?m"
    by simp_all
  from formatTime_nonneg [OF assms] ss mm
  have "\<exists>mm ss. formatTime ms = mm @ '':'' @ ss
            \<and> 2 \<le> length mm \<and> (?m < 100 \<longrightarrow> length mm = 2)
            \<and> length ss = 2
            \<and> list_all is_digit mm \<and> list_all is_digit ss
            \<and> decimal_val mm = ?m \<and> decimal_val ss = ?s"
    by blast
  with formatTime_examples show ?thesis by blast
qed

theorem formatTime_rounds_up_witness:
  "(0::real) \<le> 7259001 \<and>
   (\<exists>mm ss. formatTime 7259001 = mm @ '':'' @ ss \<and> 2 \<le> length mm \<and> length ss = 2
      \<and> list_all is_digit mm \<and> list_all is_digit ss
      \<and> decimal_val mm = 121 \<and> decimal_val ss = 0)
   \<and> formatTime 7259001 = ''121:00''"
proof -
  have c: "nat \<lceil>(7259001::real) / 1000\<rceil> = 7260" by simp
  have v: "formatTime 7259001 = ''121:00''" by (simp add: formatTime_eval)
  have "\<exists>mm ss. formatTime 7259001 = mm @ '':'' @ ss \<and> 2 \<le> length mm \<and> length ss = 2
      \<and> list_all is_digit mm \<and> list_all is_digit ss
      \<and> decimal_val mm = 121 \<and> decimal_val ss = 0"
    using formatTime_rounds_up [of 7259001] unfolding c by simp
  with v show ?thesis by simp
qed

section \<open>The countdown\<close>

lemma tick_remaining_indep:
  "tick now now' (e\<lparr>state := (state e)\<lparr>remainingTime := r\<rparr>\<rparr>) = tick now now' e"
  by (simp add: tick_def Let_def)

lemma fire_before:
  "now < endTime e \<Longrightarrow>
   \<exists>r. fst (fire now now' e) = e\<lparr>state := (state e)\<lparr>remainingTime := r\<rparr>\<rparr>"
proof (cases "hostIntervals e = {}")
  case True
  then have "fst (fire now now' e) = e\<lparr>state := (state e)\<lparr>remainingTime := remainingTime (state e)\<rparr>\<rparr>"
    by (simp add: fire_def)
  then show ?thesis ..
next
  case False
  assume "now < endTime e"
  with False have "fst (fire now now' e) = e\<lparr>state := (state e)\<lparr>remainingTime := endTime e - now\<rparr>\<rparr>"
    by (simp add: fire_def tick_before)
  then show ?thesis ..
qed

lemma run_polls_before:
  "list_all (\<lambda>p. fst p < endTime e) ps \<Longrightarrow>
   \<exists>r. fst (run (map (\<lambda>p. Poll (fst p) (snd p)) ps) e) =
        e\<lparr>state := (state e)\<lparr>remainingTime := r\<rparr>\<rparr>"
proof (induction ps arbitrary: e)
  case Nil
  have "fst (run (map (\<lambda>p. Poll (fst p) (snd p)) []) e) =
        e\<lparr>state := (state e)\<lparr>remainingTime := remainingTime (state e)\<rparr>\<rparr>"
    by simp
  then show ?case ..
next
  case (Cons p ps)
  from Cons.prems have p: "fst p < endTime e" and rest: "list_all (\<lambda>p. fst p < endTime e) ps"
    by simp_all
  from fire_before [OF p, of "snd p"] obtain r
    where r: "fst (fire (fst p) (snd p) e) = e\<lparr>state := (state e)\<lparr>remainingTime := r\<rparr>\<rparr>" ..
  let ?e1 = "e\<lparr>state := (state e)\<lparr>remainingTime := r\<rparr>\<rparr>"
  from rest have "list_all (\<lambda>p. fst p < endTime ?e1) ps" by simp
  from Cons.IH [OF this] obtain r'
    where "fst (run (map (\<lambda>p. Poll (fst p) (snd p)) ps) ?e1) =
             ?e1\<lparr>state := (state ?e1)\<lparr>remainingTime := r'\<rparr>\<rparr>" ..
  then have "fst (run (map (\<lambda>p. Poll (fst p) (snd p)) (p # ps)) e) =
        e\<lparr>state := (state e)\<lparr>remainingTime := r'\<rparr>\<rparr>"
    using r by (simp add: split_beta Let_def)
  then show ?case ..
qed

text \<open>
  Claim C2. On a running engine every poll sets \<open>remainingTime\<close> to
  \<open>max(0, endTime - now)\<close>, whatever value was stored before: nothing is decremented.
  So the poll at clock value \<open>now\<close> gives the same result after any list of earlier
  polls, many, few or none. A poll that finds \<open>endTime \<le> now\<close> stores 0 and ends the
  session: the interval that drove the countdown is cleared at the host, \<open>onSessionEnd\<close>
  is called once, and either the engine is completed with no interval left, or the next
  session runs on a new interval with a new end timestamp.
\<close>

theorem poll_recomputes_from_clock:
  assumes "interval_ok e" and "status (state e) = Running"
    and "list_all (\<lambda>p. fst p < endTime e) ps"
  shows "tick now now' (e\<lparr>state := (state e)\<lparr>remainingTime := r\<rparr>\<rparr>) = tick now now' e
     \<and> fire now now' (fst (run (map (\<lambda>p. Poll (fst p) (snd p)) ps) e)) = tick now now' e
     \<and> (if now < endTime e
         then tick now now' e =
                (e\<lparr>state := (state e)\<lparr>remainingTime := max 0 (endTime e - now)\<rparr>\<rparr>,
                 if onTick (callbacks e)
                 then [OnTick ((state e)\<lparr>remainingTime := max 0 (endTime e - now)\<rparr>)] else [])
         else tick now now' e =
                handleSessionEnd now' (e\<lparr>state := (state e)\<lparr>remainingTime := 0\<rparr>\<rparr>)
            \<and> intervalId e \<noteq> None
            \<and> set_option (intervalId e) \<inter> hostIntervals (fst (tick now now' e)) = {}
            \<and> session_ends (snd (tick now now' e)) = (if onSessionEnd (callbacks e) then 1 else 0)
            \<and> (if getNextSession e = None
                then status (state (fst (tick now now' e))) = Completed
                   \<and> hostIntervals (fst (tick now now' e)) = {}
                else status (state (fst (tick now now' e))) = Running
                   \<and> hostIntervals (fst (tick now now' e)) = {hostNextId e}
                   \<and> endTime (fst (tick now now' e)) =
                       now' + remainingTime (state (fst (tick now now' e)))))"
proof -
  from assms(1,2) obtain i where i: "intervalId e = Some i" "hostIntervals e = {i}"
    "i < hostNextId e"
    by (cases "intervalId e") (auto simp add: interval_ok_def)
  have indep: "tick now now' (e\<lparr>state := (state e)\<lparr>remainingTime := r\<rparr>\<rparr>) = tick now now' e"
    by (rule tick_remaining_indep)
  from run_polls_before [OF assms(3)] obtain r'
    where "fst (run (map (\<lambda>p. Poll (fst p) (snd p)) ps) e) =
             e\<lparr>state := (state e)\<lparr>remainingTime := r'\<rparr>\<rparr>" ..
  with i have polls: "fire now now' (fst (run (map (\<lambda>p. Poll (fst p) (snd p)) ps) e)) = tick now now' e"
    by (simp add: fire_def tick_remaining_indep)
  show ?thesis
  proof (cases "now < endTime e")
    case True
    then have "tick now now' e =
                (e\<lparr>state := (state e)\<lparr>remainingTime := max 0 (endTime e - now)\<rparr>\<rparr>,
                 if onTick (callbacks e)
                 then [OnTick ((state e)\<lparr>remainingTime := max 0 (endTime e - now)\<rparr>)] else [])"
      by (simp add: tick_before max_def)
    then show ?thesis
      unfolding if_P [OF True] by (rule conjI [OF indep conjI [OF polls]])
  next
    case False
    then have le: "endTime e \<le> now" by simp
    have tk: "tick now now' e = handleSessionEnd now' e" by (rule tick_expired [OF le])
    have tk0: "tick now now' e = handleSessionEnd now' (e\<lparr>state := (state e)\<lparr>remainingTime := 0\<rparr>\<rparr>)"
      by (simp add: tk handleSessionEnd_remaining)
    have stop: "hostIntervals (stopInterval e) = {}" using i by (simp add: stopInterval_host)
    have ends: "session_ends (snd (tick now now' e)) = (if onSessionEnd (callbacks e) then 1 else 0)"
      by (simp add: tk handleSessionEnd_events session_ends_def)
    have rest: "set_option (intervalId e) \<inter> hostIntervals (fst (tick now now' e)) = {}
       \<and> (if getNextSession e = None
           then status (state (fst (tick now now' e))) = Completed
              \<and> hostIntervals (fst (tick now now' e)) = {}
           else status (state (fst (tick now now' e))) = Running
              \<and> hostIntervals (fst (tick now now' e)) = {hostNextId e}
              \<and> endTime (fst (tick now now' e)) =
                  now' + remainingTime (state (fst (tick now now' e))))"
    proof (cases "getNextSession e")
      case None
      then show ?thesis using i stop by (simp add: tk handleSessionEnd_None)
    next
      case (Some ns)
      then show ?thesis using i stop by (simp add: tk handleSessionEnd_Some)
    qed
    have ne: "intervalId e \<noteq> None" using i by simp
    from tk0 ne ends rest
    have "tick now now' e =
                handleSessionEnd now' (e\<lparr>state := (state e)\<lparr>remainingTime := 0\<rparr>\<rparr>)
            \<and> intervalId e \<noteq> None
            \<and> set_option (intervalId e) \<inter> hostIntervals (fst (tick now now' e)) = {}
            \<and> session_ends (snd (tick now now' e)) = (if onSessionEnd (callbacks e) then 1 else 0)
            \<and> (if getNextSession e = None
                then status (state (fst (tick now now' e))) = Completed
                   \<and> hostIntervals (fst (tick now now' e)) = {}
                else status (state (fst (tick now now' e))) = Running
                   \<and> hostIntervals (fst (tick now now' e)) = {hostNextId e}
                   \<and> endTime (fst (tick now now' e)) =
                       now' + remainingTime (state (fst (tick now now' e))))"
      by blast
    then show ?thesis
      unfolding if_not_P [OF False] by (rule conjI [OF indep conjI [OF polls]])
  qed
qed


theorem poll_recomputes_from_clock_witness:
  "interval_ok running_timer \<and> status (state running_timer) = Running \<and>
   list_all (\<lambda>p. fst p < endTime running_timer) [(1100, 1100), (250000, 250001)] \<and>
   fire 601000 601000 (fst (run [Poll 1100 1100, Poll 250000 250001] running_timer)) =
     tick 601000 601000 running_timer \<and>
   remainingTime (state (fst (tick 601000 601000 running_timer))) = 900000 \<and>
   session_ends (snd (tick 1501000 1501002 running_timer)) = 1 \<and>
   hostIntervals (fst (tick 1501000 1501002 running_timer)) = {2} \<and>
   endTime (fst (tick 1501000 1501002 running_timer)) =
     1501002 + remainingTime (state (fst (tick 1501000 1501002 running_timer)))"
proof -
  have a: "interval_ok running_timer" by (simp add: running_timer_eq interval_ok_def)
  have b: "status (state running_timer) = Running" by (simp add: running_timer_eq)
  have c: "list_all (\<lambda>p. fst p < endTime running_timer) [(1100, 1100), (250000, 250001)]"
    by (simp add: running_timer_eq)
  have d: "endTime running_timer = 1501000" "hostNextId running_timer = 2"
    "onSessionEnd (callbacks running_timer)" "getNextSession running_timer = Some Break"
    by (simp_all add: running_timer_eq all_callbacks_def getNextSession_def js_rem_def
        js_trunc_rem_def DEFAULT_SETTINGS_def)
  note early = poll_recomputes_from_clock [OF a b c, of 601000 601000 0]
  note late = poll_recomputes_from_clock [OF a b c, of 1501000 1501002 0]
  have e1: "fire 601000 601000 (fst (run [Poll 1100 1100, Poll 250000 250001] running_timer)) =
     tick 601000 601000 running_timer"
    using early by (simp (no_asm_use) add: d) blast
  have e2: "remainingTime (state (fst (tick 601000 601000 running_timer))) = 900000"
    using early by (simp (no_asm_use) add: d) simp
  have f1: "session_ends (snd (tick 1501000 1501002 running_timer)) = 1"
    using late by (simp (no_asm_use) add: d) blast
  have f2: "hostIntervals (fst (tick 1501000 1501002 running_timer)) = {2}"
    using late by (simp (no_asm_use) add: d) blast
  have f3: "endTime (fst (tick 1501000 1501002 running_timer)) =
       1501002 + remainingTime (state (fst (tick 1501000 1501002 running_timer)))"
    using late by (simp (no_asm_use) add: d) blast
  from a b c e1 e2 f1 f2 f3 show ?thesis by simp
qed

section \<open>The set counter\<close>

lemma getNextSession_cases:
  "getNextSession e = None \<Longrightarrow> totalSets (settings e) \<le> currentSet (state e)"
  "getNextSession e = Some ns \<Longrightarrow> currentSet (state e) < totalSets (settings e) \<and>
     (if currentSession (state e) = Work then ns = Break \<or> ns = LongBreak else ns = Work)"
  by (auto simp add: getNextSession_def Let_def split: if_splits)

lemma handleSessionEnd_settings [simp]:
  "settings (fst (handleSessionEnd t e)) = settings e"
  "callbacks (fst (handleSessionEnd t e)) = callbacks e"
  by (cases "getNextSession e"; simp add: handleSessionEnd_None handleSessionEnd_Some)+

lemma set_ok_handleSessionEnd: "set_ok e \<Longrightarrow> set_ok (fst (handleSessionEnd t e))"
proof (cases "getNextSession e")
  case None
  assume "set_ok e"
  then show ?thesis by (simp add: handleSessionEnd_None [OF None] set_ok_def)
next
  case (Some ns)
  assume "set_ok e"
  with getNextSession_cases(2) [OF Some] show ?thesis
    by (auto simp add: handleSessionEnd_Some [OF Some] set_ok_def split: if_splits)
qed

lemma tick_settings [simp]:
  "settings (fst (tick now t e)) = settings e"
  "callbacks (fst (tick now t e)) = callbacks e"
  by (simp_all add: tick_def Let_def)

lemma set_ok_remaining [simp]:
  "set_ok (e\<lparr>state := (state e)\<lparr>remainingTime := r\<rparr>\<rparr>) = set_ok e"
  by (simp add: set_ok_def)

lemma set_ok_tick: "set_ok e \<Longrightarrow> set_ok (fst (tick now t e))"
  by (simp add: tick_def Let_def set_ok_handleSessionEnd)

lemma apply_action_settings:
  "keeps_settings a \<Longrightarrow> settings (fst (apply_action a e)) = settings e"
  by (cases a)
     (simp_all add: start_def resume_def pause_def reset_def skip_def fire_def Let_def)

lemma apply_action_callbacks [simp]: "callbacks (fst (apply_action a e)) = callbacks e"
  by (cases a)
     (simp_all add: start_def resume_def pause_def reset_def skip_def fire_def Let_def
       updateSettings_def)

lemma set_ok_apply_action:
  assumes "set_ok e" and "keeps_settings a"
  shows "set_ok (fst (apply_action a e))"
proof (cases a)
  case (Start now)
  with assms show ?thesis by (simp add: start_def resume_def Let_def set_ok_def)
next
  case Pause
  with assms show ?thesis by (simp add: pause_def Let_def set_ok_def)
next
  case Reset
  from assms have "1 \<le> totalSets (settings e)" by (simp add: set_ok_def)
  with Reset show ?thesis by (simp add: reset_def Let_def set_ok_def createInitialState_def)
next
  case (Skip now)
  with assms show ?thesis by (simp add: skip_def set_ok_handleSessionEnd)
next
  case (Poll now t)
  with assms show ?thesis by (simp add: fire_def set_ok_tick)
next
  case (UpdateSettings p)
  with assms show ?thesis by simp
qed

lemma set_ok_run:
  "set_ok e \<Longrightarrow> list_all keeps_settings acts \<Longrightarrow>
   set_ok (fst (run acts e)) \<and> settings (fst (run acts e)) = settings e"
proof (induction acts arbitrary: e)
  case Nil
  then show ?case by simp
next
  case (Cons a acts)
  from Cons.prems have a: "keeps_settings a" and rest: "list_all keeps_settings acts"
    by simp_all
  let ?e1 = "fst (apply_action a e)"
  from set_ok_apply_action [OF Cons.prems(1) a] have ok1: "set_ok ?e1" .
  from Cons.IH [OF ok1 rest] apply_action_settings [OF a, of e]
  show ?case by (simp add: split_beta Let_def)
qed

lemma set_ok_construct:
  "1 \<le> totalSets (settings (construct p cb)) \<Longrightarrow> set_ok (construct p cb)"
  by (simp add: set_ok_def construct_def Let_def createInitialState_def)

text \<open>
  Claim C10. With a configuration of \<open>totalSets \<ge> 1\<close> that is not changed, every
  state the engine reaches from its construction by \<open>start\<close>, \<open>pause\<close>,
  \<open>skip\<close>, \<open>reset\<close> and polls satisfies \<open>1 \<le> currentSet \<le> totalSets\<close>;
  \<open>currentSet\<close> starts at 1.
\<close>

theorem currentSet_in_range:
  assumes "1 \<le> totalSets (settings (construct p cb))" and "list_all keeps_settings acts"
  shows "1 \<le> currentSet (state (fst (run acts (construct p cb))))
     \<and> currentSet (state (fst (run acts (construct p cb)))) \<le> totalSets (settings (construct p cb))
     \<and> settings (fst (run acts (construct p cb))) = settings (construct p cb)
     \<and> currentSet (state (construct p cb)) = 1"
proof -
  from set_ok_run [OF set_ok_construct [OF assms(1)] assms(2)]
  have "set_ok (fst (run acts (construct p cb)))"
    and s: "settings (fst (run acts (construct p cb))) = settings (construct p cb)"
    by simp_all
  then have "1 \<le> currentSet (state (fst (run acts (construct p cb))))"
    "currentSet (state (fst (run acts (construct p cb)))) \<le> totalSets (settings (construct p cb))"
    by (simp_all add: set_ok_def)
  moreover have "currentSet (state (construct p cb)) = 1"
    by (simp add: construct_def Let_def createInitialState_def)
  ultimately show ?thesis using s by simp
qed

lemma fresh_settings: "settings fresh_timer = DEFAULT_SETTINGS"
  by (simp add: fresh_timer_eq)

theorem currentSet_in_range_witness:
  "1 \<le> totalSets (settings (construct (all_fields DEFAULT_SETTINGS) all_callbacks)) \<and>
   list_all keeps_settings
     [Start 0, Skip 10, Pause, Skip 20, Poll 2000000 2000001, Skip 30, Skip 40, Skip 50,
      Skip 60, Skip 70, Start 80, Skip 90, Reset, Start 100, Skip 110, Skip 120] \<and>
   1 \<le> currentSet (state (fst (run
     [Start 0, Skip 10, Pause, Skip 20, Poll 2000000 2000001, Skip 30, Skip 40, Skip 50,
      Skip 60, Skip 70, Start 80, Skip 90, Reset, Start 100, Skip 110, Skip 120]
     (construct (all_fields DEFAULT_SETTINGS) all_callbacks)))) \<and>
   currentSet (state (fst (run
     [Start 0, Skip 10, Pause, Skip 20, Poll 2000000 2000001, Skip 30, Skip 40, Skip 50,
      Skip 60, Skip 70, Start 80, Skip 90, Reset, Start 100, Skip 110, Skip 120]
     (construct (all_fields DEFAULT_SETTINGS) all_callbacks)))) \<le> 4"
proof -
  have s: "settings (construct (all_fields DEFAULT_SETTINGS) all_callbacks) = DEFAULT_SETTINGS"
    using fresh_settings by (simp add: fresh_timer_def)
  have t: "totalSets (settings (construct (all_fields DEFAULT_SETTINGS) all_callbacks)) = 4"
    unfolding s by (simp add: DEFAULT_SETTINGS_def)
  have a: "1 \<le> totalSets (settings (construct (all_fields DEFAULT_SETTINGS) all_callbacks))"
    unfolding t by simp
  have b: "list_all keeps_settings
     [Start 0, Skip 10, Pause, Skip 20, Poll 2000000 2000001, Skip 30, Skip 40, Skip 50,
      Skip 60, Skip 70, Start 80, Skip 90, Reset, Start 100, Skip 110, Skip 120]"
    by simp
  from a b currentSet_in_range [OF a b] show ?thesis unfolding t by blast
qed

section \<open>Progress\<close>

lemma time_ok_mono: "time_ok t e \<Longrightarrow> t \<le> t' \<Longrightarrow> time_ok t' e"
  by (auto simp add: time_ok_def split: if_splits)

lemma interval_ok_handleSessionEnd:
  "interval_ok e \<Longrightarrow> interval_ok (fst (handleSessionEnd t e))"
proof (cases "getNextSession e")
  case None
  assume "interval_ok e"
  from interval_ok_stop [OF this] show ?thesis
    by (simp add: handleSessionEnd_None [OF None] interval_ok_def)
next
  case (Some ns)
  assume "interval_ok e"
  from interval_ok_stop [OF this] show ?thesis
    by (simp add: handleSessionEnd_Some [OF Some] interval_ok_def)
qed

lemma interval_ok_remaining [simp]:
  "interval_ok (e\<lparr>state := (state e)\<lparr>remainingTime := r\<rparr>\<rparr>) = interval_ok e"
  by (simp add: interval_ok_def)

lemma interval_ok_apply_action:
  assumes "interval_ok e"
  shows "interval_ok (fst (apply_action a e))"
proof (cases a)
  case (Start now)
  with assms show ?thesis
    by (cases "status (state e)")
       (auto simp add: start_def resume_def Let_def interval_ok_def)
next
  case Pause
  with assms interval_ok_stop [OF assms] show ?thesis
    by (auto simp add: pause_def Let_def interval_ok_def)
next
  case Reset
  with assms interval_ok_stop [OF assms] show ?thesis
    by (auto simp add: reset_def Let_def interval_ok_def createInitialState_def)
next
  case (Skip now)
  with assms show ?thesis by (simp add: skip_def interval_ok_handleSessionEnd)
next
  case (Poll now t)
  with assms show ?thesis
    by (simp add: fire_def tick_def Let_def interval_ok_handleSessionEnd)
next
  case (UpdateSettings p)
  with assms show ?thesis by (auto simp add: updateSettings_def interval_ok_def)
qed

lemma time_ok_handleSessionEnd:
  assumes "time_ok t e" and "t \<le> now"
  shows "time_ok now (fst (handleSessionEnd now e))"
proof (cases "getNextSession e")
  case None
  from assms show ?thesis
    by (simp add: handleSessionEnd_None [OF None] time_ok_def)
next
  case (Some ns)
  from assms show ?thesis
    by (simp add: handleSessionEnd_Some [OF Some] time_ok_def)
qed

lemma time_ok_start:
  assumes "time_ok t e" and "t \<le> now"
  shows "time_ok now (fst (start now e))"
proof (cases "status (state e)")
  case Running
  with time_ok_mono [OF assms] show ?thesis by (simp add: start_def)
next
  case Paused
  with assms show ?thesis by (simp add: start_def resume_def Let_def time_ok_def)
next
  case Idle
  with assms show ?thesis by (simp add: start_def Let_def time_ok_def)
next
  case Completed
  with assms show ?thesis by (simp add: start_def Let_def time_ok_def)
qed

lemma time_ok_fire:
  assumes "time_ok t e" and "interval_ok e" and "t \<le> now" and "now \<le> now'"
  shows "time_ok now' (fst (fire now now' e))"
proof (cases "hostIntervals e = {}")
  case True
  from assms have "t \<le> now'" by simp
  from time_ok_mono [OF assms(1) this] True show ?thesis by (simp add: fire_def)
next
  case False
  with assms(2) have run: "status (state e) = Running"
    by (cases "intervalId e") (simp_all add: interval_ok_def)
  show ?thesis
  proof (cases "now < endTime e")
    case True
    with assms run False show ?thesis
      by (simp add: fire_def tick_before time_ok_def)
  next
    case False
    then have "endTime e \<le> now" by simp
    from tick_expired [OF this, of now'] have "tick now now' e = handleSessionEnd now' e" .
    moreover from assms have "t \<le> now'" by simp
    ultimately show ?thesis
      using time_ok_handleSessionEnd [OF assms(1), of now'] \<open>hostIntervals e \<noteq> {}\<close>
      by (simp add: fire_def)
  qed
qed

lemma time_ok_run:
  "time_ok t e \<Longrightarrow> interval_ok e \<Longrightarrow> clock_ok t acts \<Longrightarrow>
   \<exists>t'. time_ok t' (fst (run acts e))"
proof (induction acts arbitrary: t e)
  case Nil
  then show ?case by auto
next
  case (Cons a acts)
  let ?e1 = "fst (apply_action a e)"
  have i1: "interval_ok ?e1" using Cons.prems(2) by (rule interval_ok_apply_action)
  have "\<exists>t1. time_ok t1 ?e1 \<and> clock_ok t1 acts"
  proof (cases a)
    case (Start now)
    with Cons.prems(3) have "t \<le> now" "clock_ok now acts" by simp_all
    with time_ok_start [OF Cons.prems(1), of now] Start show ?thesis by auto
  next
    case Pause
    with Cons.prems(3) have c: "clock_ok t acts" by simp
    from Cons.prems(1) have "time_ok t (fst (pause e))"
      by (auto simp add: pause_def Let_def time_ok_def)
    with c Pause show ?thesis by auto
  next
    case Reset
    with Cons.prems(3) have c: "clock_ok t acts" by simp
    from Cons.prems(1) have "time_ok t (fst (reset e))"
      by (simp add: reset_def Let_def time_ok_def createInitialState_def)
    with c Reset show ?thesis by auto
  next
    case (Skip now)
    with Cons.prems(3) have le: "t \<le> now" and c: "clock_ok now acts" by simp_all
    have "time_ok now (fst (skip now e))"
      using time_ok_mono [OF Cons.prems(1) le] time_ok_handleSessionEnd [OF Cons.prems(1) le]
      by (simp add: skip_def)
    with c Skip show ?thesis by auto
  next
    case (Poll now now')
    with Cons.prems(3) have le: "t \<le> now" "now \<le> now'" and c: "clock_ok now' acts"
      by simp_all
    from time_ok_fire [OF Cons.prems(1,2) le] c Poll show ?thesis by auto
  next
    case (UpdateSettings p)
    with Cons.prems(3) have c: "clock_ok t acts" by simp
    from Cons.prems(1) have "time_ok t (updateSettings p e)"
      by (simp add: updateSettings_def time_ok_def)
    with c UpdateSettings show ?thesis by auto
  qed
  then obtain t1 where "time_ok t1 ?e1" "clock_ok t1 acts" by blast
  from Cons.IH [OF this(1) i1 this(2)] show ?case
    by (simp add: split_beta Let_def)
qed

lemma time_ok_construct: "time_ok t (construct p cb)"
  by (simp add: time_ok_def construct_def Let_def createInitialState_def)

lemma interval_ok_construct: "interval_ok (construct p cb)"
  by (simp add: interval_ok_def construct_def Let_def createInitialState_def)

lemma interval_ok_run: "interval_ok e \<Longrightarrow> interval_ok (fst (run acts e))"
proof (induction acts arbitrary: e)
  case Nil
  then show ?case by simp
next
  case (Cons a acts)
  from Cons.IH [OF interval_ok_apply_action [OF Cons.prems, of a]] show ?case
    by (simp add: split_beta Let_def)
qed

text \<open>
  The guard of \<open>getProgress\<close>: in every state whatever, the result is a number, 0 when
  \<open>totalDuration\<close> is 0 and the percentage otherwise; no division by zero is made.
\<close>

lemma getProgress_guarded:
  "getProgress e =
     Some (if totalDuration (state e) = 0 then 0
           else real_of_int (totalDuration (state e) - remainingTime (state e))
                  / real_of_int (totalDuration (state e)) * 100)"
  by (simp add: getProgress_def js_div_def Let_def)

lemma getProgress_bounds:
  assumes "remainingTime (state e) = totalDuration (state e) \<or>
       (0 \<le> remainingTime (state e) \<and>
        remainingTime (state e) \<le> max 0 (totalDuration (state e)))"
  shows "\<exists>v. getProgress e = Some v \<and> 0 \<le> v \<and> v \<le> 100"
proof (cases "totalDuration (state e) = 0")
  case True
  then show ?thesis by (simp add: getProgress_guarded)
next
  case False
  define x where
    "x = real_of_int (totalDuration (state e) - remainingTime (state e))
           / real_of_int (totalDuration (state e))"
  have gp: "getProgress e = Some (x * 100)"
    unfolding getProgress_guarded x_def using False by (simp only: if_False)
  have "0 \<le> x \<and> x \<le> 1"
  proof (cases "remainingTime (state e) = totalDuration (state e)")
    case True
    then show ?thesis by (simp add: x_def)
  next
    case neq: False
    with assms have r: "0 \<le> remainingTime (state e)"
      "remainingTime (state e) \<le> max 0 (totalDuration (state e))" by simp_all
    show ?thesis
    proof (cases "0 < totalDuration (state e)")
      case True
      then have pos: "0 < real_of_int (totalDuration (state e))" by simp
      from r True have "0 \<le> real_of_int (totalDuration (state e) - remainingTime (state e))"
        and "real_of_int (totalDuration (state e) - remainingTime (state e))
               \<le> real_of_int (totalDuration (state e))"
        by simp_all
      with pos show ?thesis unfolding x_def by (simp add: divide_le_eq_1)
    next
      case nonpos: False
      with r have "remainingTime (state e) = 0" by simp
      with False show ?thesis by (simp add: x_def)
    qed
  qed
  then have "0 \<le> x * 100 \<and> x * 100 \<le> 100" by simp
  with gp show ?thesis by blast
qed

text \<open>
  While the clock values the engine reads do not decrease, every state it reaches from
  its construction, by any operations, configuration updates and polls, has
  \<open>0 \<le> remainingTime \<le> totalDuration\<close> (for a duration that is not negative), and
  \<open>getProgress()\<close> returns a value between 0 and 100 there.
\<close>

lemma getProgress_forward_clock:
  assumes "e = fst (run acts (construct p cb))" and "clock_ok t acts"
  shows "(\<exists>v. getProgress e = Some v \<and> 0 \<le> v \<and> v \<le> 100)
     \<and> (if 0 \<le> totalDuration (state e)
         then 0 \<le> remainingTime (state e) \<and> remainingTime (state e) \<le> totalDuration (state e)
         else remainingTime (state e) = totalDuration (state e) \<or> remainingTime (state e) = 0)"
proof -
  from time_ok_run [OF time_ok_construct interval_ok_construct assms(2)]
  obtain t' where "time_ok t' e" unfolding assms(1) ..
  then have r: "remainingTime (state e) = totalDuration (state e) \<or>
       (0 \<le> remainingTime (state e) \<and>
        remainingTime (state e) \<le> max 0 (totalDuration (state e)))"
    by (simp add: time_ok_def)
  then have r': "if 0 \<le> totalDuration (state e)
         then 0 \<le> remainingTime (state e) \<and> remainingTime (state e) \<le> totalDuration (state e)
         else remainingTime (state e) = totalDuration (state e) \<or> remainingTime (state e) = 0"
    by (auto simp add: max_def split: if_splits)
  with getProgress_bounds [OF r] show ?thesis by blast
qed

lemma getProgress_forward_clock_example:
  "clock_ok 0 [Start 1000, Poll 601000 601000, Pause, Start 9000000] \<and>
   getProgress (fst (run [Start 1000, Poll 601000 601000, Pause, Start 9000000]
     fresh_timer)) = Some 40"
  by (simp add: fresh_timer_eq start_def resume_def pause_def Let_def startTimer_def
      stopInterval_def getSessionDuration_def DEFAULT_SETTINGS_def fire_def tick_def
      getProgress_def js_div_def all_callbacks_def getState_def notifyStateChange_def)

text \<open>
  Claim C9. \<open>getProgress()\<close> returns
  \<open>(totalDuration - remainingTime) / totalDuration * 100\<close>, and 0 when
  \<open>totalDuration\<close> is 0, so that it never divides by zero: this much holds in every
  state (\<open>getProgress_guarded\<close>). The value is to lie between 0 and 100, as the
  comment on the method says too, and it does while the clock does not go back
  (\<open>getProgress_forward_clock\<close>). The code does not keep the bound in every state it
  reaches: the clock is \<open>Date.now()\<close>, the host's wall clock, and \<open>tick\<close> bounds the
  remaining time below, by \<open>max 0\<close>, but not above. After \<open>start()\<close> at
  clock value 1000 with the default 25 minutes of work, a poll that reads the clock value
  500 stores a remaining time of 1500500 ms against a duration of 1500000 ms, and
  \<open>getProgress()\<close> returns \<open>-1/30\<close>.
\<close>

theorem getProgress_clock_set_back:
  "getProgress (fst (run [Start 1000, Poll 500 500] fresh_timer)) = Some (- (1 / 30))
   \<and> status (state (fst (run [Start 1000, Poll 500 500] fresh_timer))) = Running
   \<and> remainingTime (state (fst (run [Start 1000, Poll 500 500] fresh_timer))) = 1500500
   \<and> totalDuration (state (fst (run [Start 1000, Poll 500 500] fresh_timer))) = 1500000
   \<and> \<not> (\<exists>v. getProgress (fst (run [Start 1000, Poll 500 500] fresh_timer)) = Some v
            \<and> 0 \<le> v \<and> v \<le> 100)"
  by (simp add: fresh_timer_eq start_def Let_def startTimer_def getSessionDuration_def
      DEFAULT_SETTINGS_def fire_def tick_def getProgress_def js_div_def all_callbacks_def
      getState_def)

section \<open>Counting the callbacks of a run\<close>

lemma session_ends_append [simp]:
  "session_ends (xs @ ys) = session_ends xs + session_ends ys"
  by (simp add: session_ends_def)

lemma completions_append [simp]:
  "completions (xs @ ys) = completions xs + completions ys"
  by (simp add: completions_def)

lemma session_ends_simps [simp]:
  "session_ends [] = 0"
  "session_ends (ev # evs) = (if is_session_end ev then 1 else 0) + session_ends evs"
  by (simp_all add: session_ends_def)

lemma completions_simps [simp]:
  "completions [] = 0"
  "completions (ev # evs) = (if is_complete ev then 1 else 0) + completions evs"
  by (simp_all add: completions_def)

lemma notifyStateChange_counts [simp]:
  "session_ends (notifyStateChange e) = 0" "completions (notifyStateChange e) = 0"
  by (simp_all add: notifyStateChange_def)















end
